theory Spec2Isabelle
  imports Complex_Main "HOL-Library.Sublist"
begin

section \<open>Forecast temperature accuracy card: data model\<close>

text \<open>
  The program is the card of \<^verbatim>\<open>src/forecast-temperature-accuracy-card.js\<close>. The file holds
  two releases one after the other (1.2.0 in lines 1-1358, 1.4.0 from line 1359 on); the
  definitions below follow release 1.4.0 unless they say otherwise.

  JavaScript numbers are modelled as \<^typ>\<open>real\<close>: the arithmetic is exact, rounding of IEEE
  doubles is outside the model. \<^verbatim>\<open>null\<close> and \<^verbatim>\<open>undefined\<close> are \<^term>\<open>None\<close>. \<^verbatim>\<open>NaN\<close> only
  arises where a number is read from a missing field; those places model it as \<^term>\<open>None\<close>
  as well and say so.
\<close>

subsection \<open>JSON values found in localStorage\<close>

datatype json =
    JNull
  | JBool bool
  | JNum real
  | JStr string
  | JArr "json list"
  | JObj "(string \<times> json) list"

text \<open>The truthiness test of \<^verbatim>\<open>if (x)\<close> on a parsed JSON value.\<close>

fun truthy :: "json \<Rightarrow> bool" where
  "truthy JNull = False"
| "truthy (JBool b) = b"
| "truthy (JNum n) = (n \<noteq> 0)"
| "truthy (JStr s) = (s \<noteq> [])"
| "truthy (JArr xs) = True"
| "truthy (JObj kvs) = True"

text \<open>\<^verbatim>\<open>typeof x === 'number'\<close> on a parsed JSON value.\<close>

fun typeof_number :: "json \<Rightarrow> bool" where
  "typeof_number (JNum n) = True"
| "typeof_number JNull = False"
| "typeof_number (JBool b) = False"
| "typeof_number (JStr s) = False"
| "typeof_number (JArr xs) = False"
| "typeof_number (JObj kvs) = False"

text \<open>
  A comparison record as \<^verbatim>\<open>_recordComparison\<close> pushes it (lines 2248-2254). The code only
  ever inspects the type of \<^verbatim>\<open>forecast\<close> (line 2201), so that field stays a JSON value: a
  record of an older release may hold an array or an object there.
\<close>

record comparison =
  timestamp :: real
  forecast :: json
  forecastLookahead :: "real option"
  actual :: real
  delta :: real

text \<open>
  The stored payload \<^verbatim>\<open>{records, last_updated}\<close>; \<^verbatim>\<open>pending_forecasts\<close> is the obsolete
  field of the old format, \<^term>\<open>None\<close> when the payload has no such field.
\<close>

record history =
  pending_forecasts :: "json option"
  records :: "comparison list"
  last_updated :: real

definition empty_history :: history where
  "empty_history = \<lparr>pending_forecasts = None, records = [], last_updated = 0\<rparr>"

text \<open>
  What \<^verbatim>\<open>localStorage.getItem(key)\<close> followed by \<^verbatim>\<open>JSON.parse\<close> can give: no item under
  the key (\<^term>\<open>None\<close> of the map), an item that \<^verbatim>\<open>JSON.parse\<close> rejects, or a parsed payload.
  The store itself is reliable: \<^verbatim>\<open>getItem\<close> and \<^verbatim>\<open>setItem\<close> do not throw.
\<close>

datatype stored = Unparsable | Parsed history

type_synonym localStorage = "string \<rightharpoonup> stored"

subsection \<open>Statistics\<close>

datatype trend_class = Improving | Degrading | Stable

record statistics =
  mae :: "real option"
  bias :: "real option"
  trend :: trend_class
  accuracy :: "real option"
  recordCount :: nat
  recentRecords :: "comparison list"

text \<open>
  The body of \<^verbatim>\<open>_calculateStatistics\<close> after the history is loaded (lines 2272-2327; the
  same text again in \<^verbatim>\<open>_calculateStatisticsSecondary\<close>, lines 2386-2436). \<^verbatim>\<open>reduce\<close> is a left
  fold from 0; \<^verbatim>\<open>slice(-168)\<close> keeps the last 168 elements.
\<close>

definition statistics_of :: "real \<Rightarrow> comparison list \<Rightarrow> statistics" where
  "statistics_of now rs =
    (if length rs = 0 then
       \<lparr>mae = None, bias = None, trend = Stable, accuracy = None,
        recordCount = 0, recentRecords = []\<rparr>
     else
       let sumAbsError = foldl (\<lambda>sum r. sum + \<bar>delta r\<bar>) 0 rs;
           maeV = sumAbsError / real (length rs);
           sumDelta = foldl (\<lambda>sum r. sum + delta r) 0 rs;
           biasV = sumDelta / real (length rs);
           oneDayAgo = now - 24 * 60 * 60 * 1000;
           twoDaysAgo = now - 48 * 60 * 60 * 1000;
           recent = filter (\<lambda>r. timestamp r > oneDayAgo) rs;
           previous = filter (\<lambda>r. timestamp r > twoDaysAgo \<and> timestamp r \<le> oneDayAgo) rs;
           trendV =
             (if length recent \<ge> 2 \<and> length previous \<ge> 2 then
                let recentMAE = foldl (\<lambda>s r. s + \<bar>delta r\<bar>) 0 recent / real (length recent);
                    previousMAE = foldl (\<lambda>s r. s + \<bar>delta r\<bar>) 0 previous / real (length previous);
                    diff = recentMAE - previousMAE
                in if diff < - 0.5 then Improving
                   else if diff > 0.5 then Degrading
                   else Stable
              else Stable);
           accurateCount = length (filter (\<lambda>r. \<bar>delta r\<bar> \<le> 2) rs);
           accuracyPct = (real accurateCount / real (length rs)) * 100
       in \<lparr>mae = Some maeV, bias = Some biasV, trend = trendV, accuracy = Some accuracyPct,
           recordCount = length rs, recentRecords = drop (length rs - 168) rs\<rparr>)"

section \<open>Configuration, environment and card state\<close>

text \<open>
  \<^verbatim>\<open>this.config\<close> as \<^verbatim>\<open>setConfig\<close> builds it (lines 1727-1739). \<^verbatim>\<open>setConfig\<close> turns a falsy
  key, station or unit into \<^verbatim>\<open>null\<close>; the code still tests truthiness when it reads them, and
  so does the model.
\<close>

record config =
  temperature_sensor :: string
  latitude :: "real option"
  longitude :: "real option"
  tempest_api_key :: "string option"
  tempest_station_id :: "string option"
  unit :: "string option"
  history_days :: real
  refresh_interval :: real
  forecast_lookahead :: real

text \<open>
  The part of \<^verbatim>\<open>this.hass\<close> the card reads. A sensor state carries the result of
  \<^verbatim>\<open>parseFloat(sensorState.state)\<close> (\<^term>\<open>None\<close> when that is \<^verbatim>\<open>NaN\<close>) and the attribute
  \<^verbatim>\<open>unit_of_measurement\<close> (\<^term>\<open>None\<close> when the attribute is missing).
\<close>

record sensor_state =
  state :: "real option"
  unit_of_measurement :: "string option"

record hass =
  states :: "string \<rightharpoonup> sensor_state"
  unit_system_temperature :: "string option"

text \<open>
  The errors the refresh cycle can throw; \<^verbatim>\<open>_fetchData\<close> stores the message of the one it
  catches in \<^verbatim>\<open>this._error\<close>. \<^term>\<open>FetchRejected\<close> stands for a rejected \<^verbatim>\<open>fetch\<close> or
  \<^verbatim>\<open>response.json()\<close> promise, whose message comes from the browser.
\<close>

datatype failure =
    SensorNotFound string
  | InvalidSensorState
  | OpenMeteoApiError nat
  | InvalidOpenMeteoResponse
  | TempestInvalidApiKey
  | TempestStationNotFound
  | TempestApiError nat
  | TempestStatusError string
  | TempestNoHourly
  | TempestNoAirTemperature
  | FetchRejected

text \<open>The reactive state of the card, as the constructor initialises it (lines 1694-1711).\<close>

record card =
  currentForecast :: "real option"
  currentForecastLookahead :: "real option"
  futureForecast :: "(real \<times> real) list"
  currentForecastSecondary :: "real option"
  currentForecastSecondaryLookahead :: "real option"
  futureForecastSecondary :: "(real \<times> real) list"
  currentActual :: "real option"
  stats :: "statistics option"
  statsSecondary :: "statistics option"
  loading :: bool
  error :: "failure option"
  lastFetch :: real

text \<open>A truthy string option: neither \<^verbatim>\<open>null\<close> nor the empty string.\<close>

fun truthy_str :: "string option \<Rightarrow> bool" where
  "truthy_str None = False"
| "truthy_str (Some s) = (s \<noteq> [])"

definition isComparisonMode :: "config \<Rightarrow> bool" where
  "isComparisonMode cfg =
    (let hasCoordinates = (latitude cfg \<noteq> None \<and> longitude cfg \<noteq> None);
         hasTempest = (truthy_str (tempest_api_key cfg) \<and> truthy_str (tempest_station_id cfg))
     in hasCoordinates \<and> hasTempest)"

section \<open>Unit normalizer\<close>

text \<open>
  String helpers. Strings are byte lists; \<^verbatim>\<open>toUpperCase\<close> is modelled on the ASCII letters
  and \<^verbatim>\<open>trim\<close> on the ASCII white space, other bytes are left as they are. A lower-case
  letter has code 97 to 122 and its upper-case letter the code 32 less, which is the same
  byte with bit 5 cleared.
  \<^verbatim>\<open>replace('DEG', '')\<close> with a string pattern replaces the first occurrence only.
\<close>

fun upper_char :: "char \<Rightarrow> char" where
  "upper_char (Char b0 b1 b2 b3 b4 b5 b6 b7) =
    (let n = (of_char (Char b0 b1 b2 b3 b4 b5 b6 b7) :: nat)
     in if 97 \<le> n \<and> n \<le> 122 then Char b0 b1 b2 b3 b4 False b6 b7
        else Char b0 b1 b2 b3 b4 b5 b6 b7)"

definition toUpperCase :: "string \<Rightarrow> string" where
  "toUpperCase s = map upper_char s"

fun replace_first :: "string \<Rightarrow> string \<Rightarrow> string \<Rightarrow> string" where
  "replace_first pat rep [] = (if pat = [] then rep else [])"
| "replace_first pat rep (c # cs) =
     (if prefix pat (c # cs) then rep @ drop (length pat) (c # cs)
      else c # replace_first pat rep cs)"

definition is_space :: "char \<Rightarrow> bool" where
  "is_space c = (let n = (of_char c :: nat) in n = 32 \<or> (9 \<le> n \<and> n \<le> 13))"

definition trim :: "string \<Rightarrow> string" where
  "trim s = rev (dropWhile is_space (rev (dropWhile is_space s)))"

text \<open>\<^verbatim>\<open>s.includes(c)\<close> for a one-character pattern.\<close>

definition str_includes :: "string \<Rightarrow> char \<Rightarrow> bool" where
  "str_includes s c = (c \<in> set s)"

text \<open>\<^verbatim>\<open>_getDisplayUnit\<close>, lines 2160-2171.\<close>

definition getDisplayUnit :: "config \<Rightarrow> hass \<Rightarrow> string" where
  "getDisplayUnit cfg h =
    (case unit cfg of
       Some u \<Rightarrow>
         if u \<noteq> [] then toUpperCase u
         else (case unit_system_temperature h of
                 Some t \<Rightarrow> if t \<noteq> [] then (if t = ''F'' then ''F'' else ''C'') else ''C''
               | None \<Rightarrow> ''C'')
     | None \<Rightarrow>
         (case unit_system_temperature h of
            Some t \<Rightarrow> if t \<noteq> [] then (if t = ''F'' then ''F'' else ''C'') else ''C''
          | None \<Rightarrow> ''C''))"

text \<open>
  The source unit after \<^verbatim>\<open>(sourceUnit || '').toUpperCase().replace('DEG', '').trim()\<close>
  (line 2148).
\<close>

definition sourceNorm :: "string option \<Rightarrow> string" where
  "sourceNorm sourceUnit =
    trim (replace_first ''DEG'' [] (toUpperCase (case sourceUnit of None \<Rightarrow> [] | Some s \<Rightarrow> s)))"

text \<open>\<^verbatim>\<open>_normalizeTemperature(value, sourceUnit)\<close>, lines 2133-2158.\<close>

definition normalizeTemperature :: "config \<Rightarrow> hass \<Rightarrow> real \<Rightarrow> string option \<Rightarrow> real" where
  "normalizeTemperature cfg h v sourceUnit =
    (let targetUnit = getDisplayUnit cfg h in
     if sourceUnit = Some targetUnit then v
     else if sourceUnit = Some ''C'' \<and> targetUnit = ''F'' then (v * 9 / 5) + 32
     else if sourceUnit = Some ''F'' \<and> targetUnit = ''C'' then (v - 32) * 5 / 9
     else
       let srcNorm = sourceNorm sourceUnit;
           targetNorm = toUpperCase targetUnit
       in if str_includes srcNorm (CHR ''C'') \<and> targetNorm = ''F'' then (v * 9 / 5) + 32
          else if str_includes srcNorm (CHR ''F'') \<and> targetNorm = ''C'' then (v - 32) * 5 / 9
          else v)"

section \<open>History store\<close>

definition STORAGE_KEY_PREFIX :: string where
  "STORAGE_KEY_PREFIX = ''forecast-temp-accuracy-''"

text \<open>\<^verbatim>\<open>_getStorageKey\<close> (line 2179): every dot of the sensor id becomes an underscore.\<close>

definition getStorageKey :: "config \<Rightarrow> string" where
  "getStorageKey cfg =
    STORAGE_KEY_PREFIX @ map (\<lambda>c. if c = CHR ''.'' then CHR ''_'' else c) (temperature_sensor cfg)"

definition getStorageKeySecondary :: "config \<Rightarrow> string" where
  "getStorageKeySecondary cfg = getStorageKey cfg @ ''_openmeteo''"

text \<open>
  \<^verbatim>\<open>_loadHistory\<close>, lines 2182-2214. An item that does not parse ends in the \<^verbatim>\<open>catch\<close> and
  gives the empty log, as a missing item does. \<^verbatim>\<open>if (data.pending_forecasts)\<close> is a
  truthiness test of the field's value.
\<close>

definition loadHistory :: "config \<Rightarrow> localStorage \<Rightarrow> history" where
  "loadHistory cfg ls =
    (case ls (getStorageKey cfg) of
       None \<Rightarrow> empty_history
     | Some Unparsable \<Rightarrow> empty_history
     | Some (Parsed data) \<Rightarrow>
         (case pending_forecasts data of
            Some p \<Rightarrow>
              if truthy p then empty_history
              else (case records data of
                      [] \<Rightarrow> data
                    | firstRecord # rest \<Rightarrow>
                        if \<not> typeof_number (forecast firstRecord) then empty_history else data)
          | None \<Rightarrow>
              (case records data of
                 [] \<Rightarrow> data
               | firstRecord # rest \<Rightarrow>
                   if \<not> typeof_number (forecast firstRecord) then empty_history else data)))"

text \<open>\<^verbatim>\<open>_saveHistory\<close>, lines 2216-2224.\<close>

definition saveHistory :: "config \<Rightarrow> history \<Rightarrow> localStorage \<Rightarrow> localStorage" where
  "saveHistory cfg h ls = ls(getStorageKey cfg \<mapsto> Parsed h)"

text \<open>\<^verbatim>\<open>_loadHistorySecondary\<close> (lines 2335-2346) has no format migration.\<close>

definition loadHistorySecondary :: "config \<Rightarrow> localStorage \<Rightarrow> history" where
  "loadHistorySecondary cfg ls =
    (case ls (getStorageKeySecondary cfg) of
       None \<Rightarrow> empty_history
     | Some Unparsable \<Rightarrow> empty_history
     | Some (Parsed data) \<Rightarrow> data)"

definition saveHistorySecondary :: "config \<Rightarrow> history \<Rightarrow> localStorage \<Rightarrow> localStorage" where
  "saveHistorySecondary cfg h ls = ls(getStorageKeySecondary cfg \<mapsto> Parsed h)"

text \<open>The deduplication window and the retention window of lines 2231 and 2263, in ms.\<close>

definition dedupWindowMs :: "config \<Rightarrow> real" where
  "dedupWindowMs cfg = refresh_interval cfg * 60 * 1000 * 0.8"

definition retentionMs :: "config \<Rightarrow> real" where
  "retentionMs cfg = history_days cfg * 24 * 60 * 60 * 1000"

text \<open>
  The steps of \<^verbatim>\<open>_recordComparison\<close> on the loaded log (lines 2228-2266), with the values
  to compare passed in: the primary and the secondary variant (lines 2359-2380) run the
  same steps on their own log and their own forecast fields. \<^verbatim>\<open>now\<close> is the one
  \<^verbatim>\<open>Date.now()\<close> reading of the call.
\<close>

definition record_in ::
  "config \<Rightarrow> real \<Rightarrow> real option \<Rightarrow> real option \<Rightarrow> real option \<Rightarrow> history \<Rightarrow> history" where
  "record_in cfg now fc look act h =
    (let recentCutoff = now - dedupWindowMs cfg;
         hasRecentRecord = list_ex (\<lambda>r. timestamp r > recentCutoff) (records h);
         pushed =
           (case (fc, act) of
              (Some f, Some a) \<Rightarrow>
                if \<not> hasRecentRecord then
                  records h @ [\<lparr>timestamp = now, forecast = JNum f, forecastLookahead = look,
                                 actual = a, delta = f - a\<rparr>]
                else records h
            | _ \<Rightarrow> records h);
         cutoffTime = now - retentionMs cfg
     in h\<lparr>records := filter (\<lambda>r. timestamp r > cutoffTime) pushed, last_updated := now\<rparr>)"

text \<open>\<^verbatim>\<open>_recordComparison\<close>, lines 2226-2268.\<close>

definition recordComparison :: "config \<Rightarrow> real \<Rightarrow> card \<Rightarrow> localStorage \<Rightarrow> localStorage" where
  "recordComparison cfg now c ls =
    saveHistory cfg
      (record_in cfg now (currentForecast c) (currentForecastLookahead c) (currentActual c)
         (loadHistory cfg ls)) ls"

text \<open>\<^verbatim>\<open>_recordComparisonSecondary\<close>, lines 2357-2382.\<close>

definition recordComparisonSecondary ::
  "config \<Rightarrow> real \<Rightarrow> card \<Rightarrow> localStorage \<Rightarrow> localStorage" where
  "recordComparisonSecondary cfg now c ls =
    saveHistorySecondary cfg
      (record_in cfg now (currentForecastSecondary c) (currentForecastSecondaryLookahead c)
         (currentActual c) (loadHistorySecondary cfg ls)) ls"

text \<open>\<^verbatim>\<open>_calculateStatistics\<close> (lines 2270-2328) and its secondary twin (lines 2384-2437).\<close>

definition calculateStatistics :: "config \<Rightarrow> real \<Rightarrow> localStorage \<Rightarrow> card \<Rightarrow> card" where
  "calculateStatistics cfg now ls c =
    c\<lparr>stats := Some (statistics_of now (records (loadHistory cfg ls)))\<rparr>"

definition calculateStatisticsSecondary :: "config \<Rightarrow> real \<Rightarrow> localStorage \<Rightarrow> card \<Rightarrow> card" where
  "calculateStatisticsSecondary cfg now ls c =
    c\<lparr>statsSecondary := Some (statistics_of now (records (loadHistorySecondary cfg ls)))\<rparr>"

section \<open>Forecast source adapters\<close>

text \<open>
  What \<^verbatim>\<open>await fetch(url)\<close> followed by \<^verbatim>\<open>await response.json()\<close> can give: a rejected
  \<^verbatim>\<open>fetch\<close>, a response that is not \<^verbatim>\<open>ok\<close> (with its status), a body that is not JSON, or
  the parsed body.
\<close>

datatype 'a response = Rejected | HttpError nat | BadJson | Body 'a

subsection \<open>Reading the sensor\<close>

text \<open>\<^verbatim>\<open>_updateActualTemperature\<close>, lines 1858-1874.\<close>

definition updateActualTemperature :: "config \<Rightarrow> hass \<Rightarrow> card \<Rightarrow> failure + card" where
  "updateActualTemperature cfg h c =
    (case states h (temperature_sensor cfg) of
       None \<Rightarrow> Inl (SensorNotFound (temperature_sensor cfg))
     | Some sensorState \<Rightarrow>
         (case state sensorState of
            None \<Rightarrow> Inl InvalidSensorState
          | Some v \<Rightarrow>
              Inr (c\<lparr>currentActual :=
                      Some (normalizeTemperature cfg h v (unit_of_measurement sensorState))\<rparr>)))"

subsection \<open>Station-based source (Tempest)\<close>

text \<open>
  An entry of \<^verbatim>\<open>data.forecast.hourly\<close>: \<^verbatim>\<open>time\<close> in unix seconds and \<^verbatim>\<open>air_temperature\<close>,
  each \<^term>\<open>None\<close> when the entry has no such field.
\<close>

record hourly_entry =
  time :: "real option"
  air_temperature :: "real option"

record tempest_status =
  status_code :: "real option"
  status_message :: "string option"

record tempest_data =
  status :: "tempest_status option"
  forecast_hourly :: "hourly_entry list option"

text \<open>
  \<^verbatim>\<open>diff < closestDiff\<close> where \<^verbatim>\<open>closestDiff\<close> may be \<^verbatim>\<open>NaN\<close> (\<^term>\<open>None\<close>): every comparison
  with \<^verbatim>\<open>NaN\<close> is false.
\<close>

fun less_nan :: "real \<Rightarrow> real option \<Rightarrow> bool" where
  "less_nan d None = False"
| "less_nan d (Some c) = (d < c)"

text \<open>
  The scan of lines 1986-1994 (and again 2027-2035): the state is the entry chosen so far
  and \<^verbatim>\<open>closestDiff\<close>. \<^verbatim>\<open>if (hourly.time)\<close> skips an entry without a time and one whose
  time is 0.
\<close>

fun closest_loop ::
  "real \<Rightarrow> hourly_entry list \<Rightarrow> hourly_entry \<times> real option \<Rightarrow> hourly_entry \<times> real option" where
  "closest_loop target [] best = best"
| "closest_loop target (hourly # rest) (chosen, closestDiff) =
     (case time hourly of
        None \<Rightarrow> closest_loop target rest (chosen, closestDiff)
      | Some t \<Rightarrow>
          if t \<noteq> 0 \<and> less_nan \<bar>t - target\<bar> closestDiff
          then closest_loop target rest (hourly, Some \<bar>t - target\<bar>)
          else closest_loop target rest (chosen, closestDiff))"

text \<open>
  Lines 1983-1994: the scan starts from \<^verbatim>\<open>hourlyForecast[0]\<close> and
  \<^verbatim>\<open>Math.abs(hourlyForecast[0].time - target)\<close>, which is \<^verbatim>\<open>NaN\<close> when the first entry has no
  time. The list is \<^verbatim>\<open>first # rest\<close>: the caller has excluded the empty array.
\<close>

definition closest_entry :: "real \<Rightarrow> hourly_entry \<Rightarrow> hourly_entry list \<Rightarrow> hourly_entry" where
  "closest_entry target first rest =
    fst (closest_loop target (first # rest)
           (first, map_option (\<lambda>t. \<bar>t - target\<bar>) (time first)))"

text \<open>
  The selection of release 1.2.0, lines 478-485: the first entry within an hour of the
  current time, the first entry of the array when there is none.
\<close>

fun currentHourForecast_v120 :: "real \<Rightarrow> hourly_entry list \<Rightarrow> hourly_entry \<Rightarrow> hourly_entry" where
  "currentHourForecast_v120 target [] dflt = dflt"
| "currentHourForecast_v120 target (hourly # rest) dflt =
     (case time hourly of
        None \<Rightarrow> currentHourForecast_v120 target rest dflt
      | Some t \<Rightarrow>
          if t \<noteq> 0 \<and> \<bar>t - target\<bar> < 3600 then hourly
          else currentHourForecast_v120 target rest dflt)"

text \<open>The chart series of lines 2010-2019.\<close>

definition tempest_future ::
  "config \<Rightarrow> hass \<Rightarrow> real \<Rightarrow> real \<Rightarrow> hourly_entry list \<Rightarrow> (real \<times> real) list" where
  "tempest_future cfg h currentTimestamp maxTimestamp hourlyForecast =
    List.map_filter
      (\<lambda>hourly.
         case (time hourly, air_temperature hourly) of
           (Some t, Some a) \<Rightarrow>
             if t \<noteq> 0 \<and> t \<ge> currentTimestamp \<and> t \<le> maxTimestamp
             then Some (t * 1000, normalizeTemperature cfg h a (Some ''F''))
             else None
         | _ \<Rightarrow> None)
      hourlyForecast"

text \<open>
  \<^verbatim>\<open>_fetchFromTempest\<close>, lines 1945-2047. Every \<^verbatim>\<open>throw\<close> comes before the first
  assignment to the card, so a failure leaves the card as it was.
\<close>

definition fetchFromTempest ::
  "config \<Rightarrow> hass \<Rightarrow> real \<Rightarrow> tempest_data response \<Rightarrow> card \<Rightarrow> failure + card" where
  "fetchFromTempest cfg h now resp c =
    (case resp of
       Rejected \<Rightarrow> Inl FetchRejected
     | HttpError st \<Rightarrow>
         if st = 401 then Inl TempestInvalidApiKey
         else if st = 404 then Inl TempestStationNotFound
         else Inl (TempestApiError st)
     | BadJson \<Rightarrow> Inl FetchRejected
     | Body data \<Rightarrow>
         (case (case status data of
                  None \<Rightarrow> None
                | Some s \<Rightarrow>
                    if status_code s \<noteq> Some 0
                    then Some (if truthy_str (status_message s)
                               then (case status_message s of Some m \<Rightarrow> m | None \<Rightarrow> [])
                               else ''Unknown error'')
                    else None) of
            Some msg \<Rightarrow> Inl (TempestStatusError msg)
          | None \<Rightarrow>
              (case forecast_hourly data of
                 None \<Rightarrow> Inl TempestNoHourly
               | Some [] \<Rightarrow> Inl TempestNoHourly
               | Some (first # rest) \<Rightarrow>
                   let currentTimestamp = of_int \<lfloor>now / 1000\<rfloor>;
                       chosen = closest_entry currentTimestamp first rest
                   in (case air_temperature chosen of
                         None \<Rightarrow> Inl TempestNoAirTemperature
                       | Some forecastTemp \<Rightarrow>
                           let c1 = c\<lparr>currentForecast :=
                                        Some (normalizeTemperature cfg h forecastTemp (Some ''F''))\<rparr>
                           in if forecast_lookahead cfg > 0 then
                                let maxTimestamp = currentTimestamp + forecast_lookahead cfg * 3600;
                                    lookaheadTimestamp = currentTimestamp + forecast_lookahead cfg * 3600;
                                    lookaheadForecast = closest_entry lookaheadTimestamp first rest
                                in Inr (c1\<lparr>futureForecast :=
                                             tempest_future cfg h currentTimestamp maxTimestamp (first # rest),
                                           currentForecastLookahead :=
                                             map_option (\<lambda>t. normalizeTemperature cfg h t (Some ''F''))
                                               (air_temperature lookaheadForecast)\<rparr>)
                              else Inr (c1\<lparr>currentForecastLookahead := None, futureForecast := []\<rparr>)))))"

subsection \<open>Coordinate-based source (Open-Meteo)\<close>

text \<open>
  The body of an Open-Meteo response. \<^term>\<open>temperature_2m\<close> is \<^verbatim>\<open>data.current.temperature_2m\<close>,
  \<^term>\<open>None\<close> when \<^verbatim>\<open>data.current\<close> or the field is missing. The hourly series is read
  through \<^verbatim>\<open>Date\<close> parsing and index arithmetic (lines 1907-1936) that the model does not
  follow: \<^term>\<open>hourly\<close> is \<^term>\<open>None\<close> when the test of line 1902 finds no usable series, and
  carries otherwise the two results of those lines before unit conversion: the
  (timestamp, temperature) pairs the loop keeps and the temperature read for the lookahead
  hour.
\<close>

record om_hourly =
  hourly_future :: "(real \<times> real) list"
  hourly_lookahead :: real

record openmeteo_data =
  temperature_2m :: "real option"
  hourly :: "om_hourly option"

text \<open>The lookahead value and chart series both Open-Meteo fetches compute the same way.\<close>

definition om_lookahead ::
  "config \<Rightarrow> hass \<Rightarrow> openmeteo_data \<Rightarrow> real option \<times> (real \<times> real) list" where
  "om_lookahead cfg h data =
    (if forecast_lookahead cfg > 0 then
       (case hourly data of
          None \<Rightarrow> (None, [])
        | Some hr \<Rightarrow>
            (Some (normalizeTemperature cfg h (hourly_lookahead hr) (Some ''C'')),
             map (\<lambda>(ts, t). (ts, normalizeTemperature cfg h t (Some ''C''))) (hourly_future hr)))
     else (None, []))"

text \<open>\<^verbatim>\<open>_fetchFromOpenMeteo\<close>, lines 1876-1943.\<close>

definition fetchFromOpenMeteo ::
  "config \<Rightarrow> hass \<Rightarrow> openmeteo_data response \<Rightarrow> card \<Rightarrow> failure + card" where
  "fetchFromOpenMeteo cfg h resp c =
    (case resp of
       Rejected \<Rightarrow> Inl FetchRejected
     | HttpError st \<Rightarrow> Inl (OpenMeteoApiError st)
     | BadJson \<Rightarrow> Inl FetchRejected
     | Body data \<Rightarrow>
         (case temperature_2m data of
            None \<Rightarrow> Inl InvalidOpenMeteoResponse
          | Some t \<Rightarrow>
              Inr (c\<lparr>currentForecast := Some (normalizeTemperature cfg h t (Some ''C'')),
                     currentForecastLookahead := fst (om_lookahead cfg h data),
                     futureForecast := snd (om_lookahead cfg h data)\<rparr>)))"

text \<open>
  \<^verbatim>\<open>_fetchFromOpenMeteoSecondary\<close>, lines 2050-2131: the same fetch inside a \<^verbatim>\<open>try\<close> whose
  \<^verbatim>\<open>catch\<close> and early returns reset the three secondary fields; it never throws.
\<close>

definition secondary_reset :: "card \<Rightarrow> card" where
  "secondary_reset c =
    c\<lparr>currentForecastSecondary := None, currentForecastSecondaryLookahead := None,
      futureForecastSecondary := []\<rparr>"

definition fetchFromOpenMeteoSecondary ::
  "config \<Rightarrow> hass \<Rightarrow> openmeteo_data response \<Rightarrow> card \<Rightarrow> card" where
  "fetchFromOpenMeteoSecondary cfg h resp c =
    (case resp of
       Rejected \<Rightarrow> secondary_reset c
     | HttpError st \<Rightarrow> secondary_reset c
     | BadJson \<Rightarrow> secondary_reset c
     | Body data \<Rightarrow>
         (case temperature_2m data of
            None \<Rightarrow> secondary_reset c
          | Some t \<Rightarrow>
              c\<lparr>currentForecastSecondary := Some (normalizeTemperature cfg h t (Some ''C'')),
                currentForecastSecondaryLookahead := fst (om_lookahead cfg h data),
                futureForecastSecondary := snd (om_lookahead cfg h data)\<rparr>))"

section \<open>Comparison orchestrator\<close>

text \<open>
  The \<^verbatim>\<open>try\<close> block of \<^verbatim>\<open>_fetchData\<close> (lines 1821-1848). The result is the error thrown, if
  any, with the card and the store as they are when the block is left: what was assigned
  before a \<^verbatim>\<open>throw\<close> stays assigned. \<^verbatim>\<open>now\<close> is the clock reading of the cycle, the two
  responses are what the network gives in this cycle.
\<close>

definition fetchData_try ::
  "config \<Rightarrow> hass \<Rightarrow> real \<Rightarrow> tempest_data response \<Rightarrow> openmeteo_data response \<Rightarrow>
   card \<Rightarrow> localStorage \<Rightarrow> failure option \<times> card \<times> localStorage" where
  "fetchData_try cfg h now tempest openmeteo c ls =
    (case updateActualTemperature cfg h c of
       Inl e \<Rightarrow> (Some e, c, ls)
     | Inr c1 \<Rightarrow>
         (case (if isComparisonMode cfg then
                  (case fetchFromTempest cfg h now tempest c1 of
                     Inl e \<Rightarrow> Inl e
                   | Inr c' \<Rightarrow> Inr (fetchFromOpenMeteoSecondary cfg h openmeteo c'))
                else if truthy_str (tempest_api_key cfg) \<and> truthy_str (tempest_station_id cfg) then
                  fetchFromTempest cfg h now tempest c1
                else fetchFromOpenMeteo cfg h openmeteo c1) of
            Inl e \<Rightarrow> (Some e, c1, ls)
          | Inr c2 \<Rightarrow>
              let ls1 = (if currentForecast c2 \<noteq> None \<and> currentActual c2 \<noteq> None
                         then recordComparison cfg now c2 ls else ls);
                  ls2 = (if isComparisonMode cfg \<and> currentForecastSecondary c2 \<noteq> None
                            \<and> currentActual c2 \<noteq> None
                         then recordComparisonSecondary cfg now c2 ls1 else ls1);
                  c3 = calculateStatistics cfg now ls2 c2;
                  c4 = (if isComparisonMode cfg then calculateStatisticsSecondary cfg now ls2 c3
                        else c3)
              in (None, c4, ls2)))"

text \<open>
  \<^verbatim>\<open>_fetchData\<close>, lines 1814-1856: nothing happens without \<^verbatim>\<open>hass\<close>; otherwise the \<^verbatim>\<open>catch\<close>
  stores the error and the \<^verbatim>\<open>finally\<close> clears the loading flag.
\<close>

definition fetchData ::
  "config \<Rightarrow> hass option \<Rightarrow> real \<Rightarrow> tempest_data response \<Rightarrow> openmeteo_data response \<Rightarrow>
   card \<times> localStorage \<Rightarrow> card \<times> localStorage" where
  "fetchData cfg hopt now tempest openmeteo st =
    (case hopt of
       None \<Rightarrow> st
     | Some h \<Rightarrow>
         (case fetchData_try cfg h now tempest openmeteo
                 ((fst st)\<lparr>loading := True, error := None, lastFetch := now\<rparr>) (snd st) of
            (Some e, c', ls') \<Rightarrow> (c'\<lparr>error := Some e, loading := False\<rparr>, ls')
          | (None, c', ls') \<Rightarrow> (c'\<lparr>loading := False\<rparr>, ls')))"

section \<open>Concrete inputs\<close>

text \<open>
  Small inputs on which the theorems below are exercised: a Celsius card on Open-Meteo, a
  Fahrenheit card in comparison mode (Tempest and Open-Meteo), a Home Assistant state with
  one sensor, the card as its constructor leaves it, and a record with a given timestamp
  and delta.
\<close>

definition cfg_celsius :: config where
  "cfg_celsius =
    \<lparr>temperature_sensor = ''sensor.t'', latitude = Some 48, longitude = Some 11,
     tempest_api_key = None, tempest_station_id = None, unit = Some ''C'',
     history_days = 7, refresh_interval = 60, forecast_lookahead = 0\<rparr>"

definition cfg_dual :: config where
  "cfg_dual =
    \<lparr>temperature_sensor = ''sensor.t'', latitude = Some 48, longitude = Some 11,
     tempest_api_key = Some ''k'', tempest_station_id = Some ''1'', unit = Some ''F'',
     history_days = 7, refresh_interval = 60, forecast_lookahead = 0\<rparr>"

definition hass_one :: "real option \<Rightarrow> string option \<Rightarrow> hass" where
  "hass_one v u =
    \<lparr>states = [''sensor.t'' \<mapsto> \<lparr>state = v, unit_of_measurement = u\<rparr>],
     unit_system_temperature = None\<rparr>"

definition card_init :: card where
  "card_init =
    \<lparr>currentForecast = None, currentForecastLookahead = None, futureForecast = [],
     currentForecastSecondary = None, currentForecastSecondaryLookahead = None,
     futureForecastSecondary = [], currentActual = None, stats = None, statsSecondary = None,
     loading = True, error = None, lastFetch = 0\<rparr>"

definition rec_at :: "real \<Rightarrow> real \<Rightarrow> comparison" where
  "rec_at ts d =
    \<lparr>timestamp = ts, forecast = JNum d, forecastLookahead = None, actual = 0, delta = d\<rparr>"

definition store_of :: "comparison list \<Rightarrow> localStorage" where
  "store_of rs =
    [''forecast-temp-accuracy-sensor_t'' \<mapsto>
       Parsed \<lparr>pending_forecasts = None, records = rs, last_updated = 0\<rparr>]"

definition card_with :: "real \<Rightarrow> real \<Rightarrow> card" where
  "card_with f a = card_init\<lparr>currentForecast := Some f, currentActual := Some a\<rparr>"

section \<open>Auxiliary facts\<close>

lemma foldl_add_sum_list: "foldl (\<lambda>s r. s + f r) a rs = a + sum_list (map f rs)"
  for a :: real
  by (induction rs arbitrary: a) simp_all

lemma key_celsius: "getStorageKey cfg_celsius = ''forecast-temp-accuracy-sensor_t''"
  by (simp add: getStorageKey_def cfg_celsius_def STORAGE_KEY_PREFIX_def)

lemma load_store_of:
  "records (loadHistory cfg_celsius (store_of (rec_at t d # rs))) = rec_at t d # rs"
  by (simp add: loadHistory_def key_celsius store_of_def rec_at_def)

section \<open>Statistics engine\<close>

text \<open>
  Claim C1. For every non-empty sequence of comparison records the statistics computation
  returns \<open>mae\<close> equal to the arithmetic mean of \<open>|delta|\<close> over all records, \<open>bias\<close> equal to
  the arithmetic mean of \<open>delta\<close> (sign preserved), and \<open>accuracy\<close> equal to 100 times the
  number of records with \<open>|delta| \<le> 2\<close> divided by the number of records. The records are
  the ones \<^verbatim>\<open>_calculateStatistics\<close> loads from the store.
\<close>

theorem calculateStatistics_means:
  assumes "records (loadHistory cfg ls) = rs" and "rs \<noteq> []"
  shows "\<exists>s. stats (calculateStatistics cfg now ls c) = Some s
    \<and> mae s = Some (sum_list (map (\<lambda>r. \<bar>delta r\<bar>) rs) / real (length rs))
    \<and> bias s = Some (sum_list (map delta rs) / real (length rs))
    \<and> accuracy s =
        Some (100 * real (length (filter (\<lambda>r. \<bar>delta r\<bar> \<le> 2) rs)) / real (length rs))"
  using assms
  by (simp add: calculateStatistics_def statistics_of_def Let_def foldl_add_sum_list)

text \<open>
  Two stored records with deltas 1 and -3: the mean absolute error is 2, the bias -1, and
  one record of two is within 2 degrees.
\<close>

theorem calculateStatistics_means_witness:
  "\<exists>s. stats (calculateStatistics cfg_celsius 0 (store_of [rec_at 1 1, rec_at 2 (- 3)]) card_init)
         = Some s
    \<and> mae s = Some 2 \<and> bias s = Some (- 1) \<and> accuracy s = Some 50"
proof -
  have nonempty: "[rec_at 1 1, rec_at 2 (- 3)] \<noteq> []" by simp
  show ?thesis
    using calculateStatistics_means [OF load_store_of nonempty, of 0 card_init]
    by (simp add: rec_at_def)
qed



section \<open>Unit normalizer\<close>

lemma upper_F: "toUpperCase ''F'' = ''F''" and upper_C: "toUpperCase ''C'' = ''C''"
  by (simp_all add: toUpperCase_def)

lemma sourceNorm_F: "sourceNorm (Some ''F'') = ''F''" and sourceNorm_C: "sourceNorm (Some ''C'') = ''C''"
  by (simp_all add: sourceNorm_def toUpperCase_def trim_def is_space_def)

lemma sourceNorm_None: "sourceNorm None = []"
  by (simp add: sourceNorm_def toUpperCase_def trim_def)

lemma sourceNorm_upper_F: "toUpperCase t = ''F'' \<Longrightarrow> sourceNorm (Some t) = ''F''"
  by (simp add: sourceNorm_def trim_def is_space_def)

lemma sourceNorm_upper_C: "toUpperCase t = ''C'' \<Longrightarrow> sourceNorm (Some t) = ''C''"
  by (simp add: sourceNorm_def trim_def is_space_def)

lemma upper_char_idem: "upper_char (upper_char c) = upper_char c"
  by (cases c) (auto simp add: Let_def)

lemma toUpperCase_idem: "toUpperCase (toUpperCase s) = toUpperCase s"
  by (simp add: toUpperCase_def upper_char_idem)

lemma toUpperCase_display: "toUpperCase (getDisplayUnit cfg h) = getDisplayUnit cfg h"
  by (auto simp add: getDisplayUnit_def toUpperCase_idem upper_F upper_C split: option.splits)

lemma normalize_match:
  "sourceNorm (Some src) = sourceNorm (Some (getDisplayUnit cfg h)) \<Longrightarrow>
   normalizeTemperature cfg h v (Some src) = v"
  by (auto simp add: normalizeTemperature_def Let_def sourceNorm_F sourceNorm_C str_includes_def
      sourceNorm_upper_F sourceNorm_upper_C)

lemma normalize_C_to_F:
  "str_includes (sourceNorm (Some src)) (CHR ''C'') \<Longrightarrow> getDisplayUnit cfg h = ''F'' \<Longrightarrow>
   normalizeTemperature cfg h v (Some src) = v * 9 / 5 + 32"
  by (auto simp add: normalizeTemperature_def Let_def sourceNorm_F str_includes_def upper_F)

lemma normalize_F_to_C:
  "str_includes (sourceNorm (Some src)) (CHR ''F'') \<Longrightarrow> getDisplayUnit cfg h = ''C'' \<Longrightarrow>
   normalizeTemperature cfg h v (Some src) = (v - 32) * 5 / 9"
  by (auto simp add: normalizeTemperature_def Let_def sourceNorm_C str_includes_def upper_C)

lemma normalize_unrecognized_source:
  "\<not> str_includes (sourceNorm u) (CHR ''C'') \<Longrightarrow> \<not> str_includes (sourceNorm u) (CHR ''F'') \<Longrightarrow>
   normalizeTemperature cfg h v u = v"
  by (auto simp add: normalizeTemperature_def Let_def sourceNorm_C sourceNorm_F str_includes_def)

lemma normalize_unrecognized_target:
  "getDisplayUnit cfg h \<noteq> ''F'' \<Longrightarrow> getDisplayUnit cfg h \<noteq> ''C'' \<Longrightarrow>
   normalizeTemperature cfg h v u = v"
  by (auto simp add: normalizeTemperature_def Let_def toUpperCase_display)

lemma normalize_None: "normalizeTemperature cfg h v None = v"
  by (simp add: normalizeTemperature_def Let_def sourceNorm_None str_includes_def)

lemma display_celsius: "getDisplayUnit cfg_celsius h = ''C''"
  by (simp add: getDisplayUnit_def cfg_celsius_def upper_C)

lemma display_dual: "getDisplayUnit cfg_dual h = ''F''"
  by (simp add: getDisplayUnit_def cfg_dual_def upper_F)

lemma sourceNorm_degC: "sourceNorm (Some ''degC'') = ''C''"
  by (simp add: sourceNorm_def toUpperCase_def trim_def is_space_def)

lemma sourceNorm_degree_c:
  "sourceNorm (Some [CHR 0xC2, CHR 0xB0, CHR ''c'']) = [CHR 0xC2, CHR 0xB0, CHR ''C'']"
  by (simp add: sourceNorm_def toUpperCase_def trim_def is_space_def)

lemma sourceNorm_deg_f: "sourceNorm (Some '' Deg f '') = ''F''"
  by (simp add: sourceNorm_def toUpperCase_def trim_def is_space_def)

lemma sourceNorm_K: "sourceNorm (Some ''K'') = ''K''"
  by (simp add: sourceNorm_def toUpperCase_def trim_def is_space_def)

text \<open>
  Claim C6. For every value and unit pair the unit normalizer returns the input unchanged
  when source and target unit match after the normalization of case, white space and
  \<open>DEG\<close>; when the source unit denotes Celsius and the target is Fahrenheit it returns
  \<open>v * 9 / 5 + 32\<close>; when the source denotes Fahrenheit and the target is Celsius it returns
  \<open>(v - 32) * 5 / 9\<close>, so 50 in Fahrenheit shown in Celsius is 10; and an unrecognized unit
  passes the value through unchanged, there being no error path. The target is the display
  unit of \<^verbatim>\<open>_getDisplayUnit\<close>. A source unit denotes Celsius (Fahrenheit) when its normalized
  form contains the letter C (F), which is the test of lines 2151 and 2153; it is
  unrecognized when it contains neither, and a target is unrecognized when it is neither
  \<open>F\<close> nor \<open>C\<close>.
\<close>

theorem normalizeTemperature_contract:
  "(sourceNorm (Some src) = sourceNorm (Some (getDisplayUnit cfg h)) \<longrightarrow>
      normalizeTemperature cfg h v (Some src) = v)
   \<and> (str_includes (sourceNorm (Some src)) (CHR ''C'') \<and> getDisplayUnit cfg h = ''F'' \<longrightarrow>
      normalizeTemperature cfg h v (Some src) = v * 9 / 5 + 32)
   \<and> (str_includes (sourceNorm (Some src)) (CHR ''F'') \<and> getDisplayUnit cfg h = ''C'' \<longrightarrow>
      normalizeTemperature cfg h v (Some src) = (v - 32) * 5 / 9)
   \<and> (\<not> str_includes (sourceNorm u) (CHR ''C'') \<and> \<not> str_includes (sourceNorm u) (CHR ''F'') \<longrightarrow>
      normalizeTemperature cfg h v u = v)
   \<and> (getDisplayUnit cfg h \<noteq> ''F'' \<and> getDisplayUnit cfg h \<noteq> ''C'' \<longrightarrow>
      normalizeTemperature cfg h v u = v)
   \<and> (getDisplayUnit cfg h = ''C'' \<longrightarrow> normalizeTemperature cfg h 50 (Some ''F'') = 10)"
proof -
  have example: "normalizeTemperature cfg h 50 (Some ''F'') = 10" if "getDisplayUnit cfg h = ''C''"
    using normalize_F_to_C [of "''F''" cfg h 50] that
    by (simp add: sourceNorm_F str_includes_def)
  show ?thesis
    using normalize_match normalize_C_to_F normalize_F_to_C normalize_unrecognized_source
      normalize_unrecognized_target example
    by blast
qed

lemma display_kelvin: "getDisplayUnit (cfg_celsius\<lparr>unit := Some ''K''\<rparr>) h = ''K''"
  by (simp add: getDisplayUnit_def toUpperCase_def)

text \<open>
  One input for each part: \<open>degC\<close> shown in Celsius, the two bytes of the degree sign
  followed by \<open>c\<close> shown in Fahrenheit, \<open>Deg f\<close> with blanks shown in Celsius, Kelvin as a
  source and as a target, and the 50 degrees Fahrenheit of the specification.
\<close>

theorem normalizeTemperature_contract_witness:
  "normalizeTemperature cfg_celsius (hass_one None None) 21 (Some ''degC'') = 21
   \<and> normalizeTemperature cfg_dual (hass_one None None) 100 (Some [CHR 0xC2, CHR 0xB0, CHR ''c'']) = 212
   \<and> normalizeTemperature cfg_celsius (hass_one None None) 68 (Some '' Deg f '') = 20
   \<and> normalizeTemperature cfg_dual (hass_one None None) 280 (Some ''K'') = 280
   \<and> normalizeTemperature (cfg_celsius\<lparr>unit := Some ''K''\<rparr>) (hass_one None None) 5 (Some ''F'') = 5
   \<and> normalizeTemperature cfg_celsius (hass_one None None) 50 (Some ''F'') = 10"
proof -
  have same: "normalizeTemperature cfg_celsius (hass_one None None) 21 (Some ''degC'') = 21"
    using normalizeTemperature_contract [of "''degC''" cfg_celsius "hass_one None None" 21 None]
    by (simp add: display_celsius sourceNorm_degC sourceNorm_C)
  have c_to_f: "normalizeTemperature cfg_dual (hass_one None None) 100
      (Some [CHR 0xC2, CHR 0xB0, CHR ''c'']) = 212"
    using normalizeTemperature_contract
      [of "[CHR 0xC2, CHR 0xB0, CHR ''c'']" cfg_dual "hass_one None None" 100 None]
    by (simp add: display_dual sourceNorm_degree_c str_includes_def)
  have f_to_c: "normalizeTemperature cfg_celsius (hass_one None None) 68 (Some '' Deg f '') = 20"
    using normalizeTemperature_contract [of "'' Deg f ''" cfg_celsius "hass_one None None" 68 None]
    by (simp add: display_celsius sourceNorm_deg_f str_includes_def)
  have kelvin: "normalizeTemperature cfg_dual (hass_one None None) 280 (Some ''K'') = 280"
    using normalizeTemperature_contract
      [of "''K''" cfg_dual "hass_one None None" 280 "Some ''K''"]
    by (simp add: sourceNorm_K str_includes_def)
  have target: "normalizeTemperature (cfg_celsius\<lparr>unit := Some ''K''\<rparr>) (hass_one None None) 5
      (Some ''F'') = 5"
    using normalizeTemperature_contract
      [of "''F''" "cfg_celsius\<lparr>unit := Some ''K''\<rparr>" "hass_one None None" 5 "Some ''F''"]
    by (simp add: display_kelvin)
  have fifty: "normalizeTemperature cfg_celsius (hass_one None None) 50 (Some ''F'') = 10"
    using normalizeTemperature_contract [of "''F''" cfg_celsius "hass_one None None" 50 None]
    by (simp add: display_celsius)
  from same c_to_f f_to_c kelvin target fifty show ?thesis by simp
qed

text \<open>
  Claim C10. The unit normalizer is total in its source unit: for every numeric value a
  call with a \<^verbatim>\<open>null\<close> or \<^verbatim>\<open>undefined\<close> source unit (a sensor whose state carries no
  \<^verbatim>\<open>unit_of_measurement\<close> attribute) raises no error and returns the value unchanged; so
  \<^verbatim>\<open>_updateActualTemperature\<close> stores the reading of such a sensor as it is.
\<close>

theorem normalizeTemperature_without_unit:
  "normalizeTemperature cfg h v None = v
   \<and> (states h (temperature_sensor cfg) = Some \<lparr>state = Some v, unit_of_measurement = None\<rparr> \<longrightarrow>
        updateActualTemperature cfg h c = Inr (c\<lparr>currentActual := Some v\<rparr>))"
  by (simp add: normalize_None updateActualTemperature_def)

text \<open>A Fahrenheit card reading 71 from a sensor without a unit attribute.\<close>

theorem normalizeTemperature_without_unit_witness:
  "normalizeTemperature cfg_dual (hass_one (Some 71) None) 71 None = 71
   \<and> updateActualTemperature cfg_dual (hass_one (Some 71) None) card_init
       = Inr (card_init\<lparr>currentActual := Some 71\<rparr>)"
  using normalizeTemperature_without_unit [of cfg_dual "hass_one (Some 71) None" 71 card_init]
  by (simp add: hass_one_def cfg_dual_def)

section \<open>History store\<close>

lemma loadHistory_pending:
  "pending_forecasts (loadHistory cfg ls) = Some p \<Longrightarrow> \<not> truthy p"
  by (auto simp add: loadHistory_def empty_history_def
      split: option.splits stored.splits list.splits if_splits)

lemma loadHistory_saveHistory:
  assumes "\<And>p. pending_forecasts h = Some p \<Longrightarrow> \<not> truthy p"
    and "list_all (\<lambda>r. typeof_number (forecast r)) (records h)"
  shows "loadHistory cfg (saveHistory cfg h ls) = h"
  using assms
  by (auto simp add: loadHistory_def saveHistory_def split: option.splits list.splits)

lemma records_record_in:
  "records (record_in cfg now fc look act h) =
    filter (\<lambda>r. timestamp r > now - retentionMs cfg)
      (case (fc, act) of
         (Some f, Some a) \<Rightarrow>
           if \<not> list_ex (\<lambda>r. timestamp r > now - dedupWindowMs cfg) (records h)
           then records h @ [\<lparr>timestamp = now, forecast = JNum f, forecastLookahead = look,
                              actual = a, delta = f - a\<rparr>]
           else records h
       | _ \<Rightarrow> records h)"
  by (simp add: record_in_def Let_def)

lemma pending_record_in: "pending_forecasts (record_in cfg now fc look act h) = pending_forecasts h"
  by (simp add: record_in_def Let_def)

lemma record_in_skip:
  "list_ex (\<lambda>r. timestamp r > now - dedupWindowMs cfg) (records h) \<Longrightarrow>
   record_in cfg now fc look act h =
     h\<lparr>records := filter (\<lambda>r. timestamp r > now - retentionMs cfg) (records h), last_updated := now\<rparr>"
  by (simp add: record_in_def Let_def split: option.splits)

lemma numeric_record_in:
  "list_all (\<lambda>r. typeof_number (forecast r)) (records h) \<Longrightarrow>
   list_all (\<lambda>r. typeof_number (forecast r)) (records (record_in cfg now fc look act h))"
  by (auto simp add: records_record_in list_all_iff split: option.splits)

lemma stored_recordComparison:
  "recordComparison cfg now c ls (getStorageKey cfg) =
    Some (Parsed (record_in cfg now (currentForecast c) (currentForecastLookahead c)
                    (currentActual c) (loadHistory cfg ls)))"
  by (simp add: recordComparison_def saveHistory_def)

lemma load_recordComparison:
  assumes "list_all (\<lambda>r. typeof_number (forecast r)) (records (loadHistory cfg ls))"
  shows "loadHistory cfg (recordComparison cfg now c ls) =
    record_in cfg now (currentForecast c) (currentForecastLookahead c) (currentActual c)
      (loadHistory cfg ls)"
  unfolding recordComparison_def
  by (rule loadHistory_saveHistory)
     (simp_all add: pending_record_in loadHistory_pending numeric_record_in assms)

text \<open>
  Claim C4. After every append cycle, also one in which the append itself was skipped by
  deduplication or because the forecast or the actual value is missing, the stored history
  holds no record with a timestamp below \<open>now - retentionDays * 86400000\<close>. An append cycle
  is a call of \<^verbatim>\<open>_recordComparison\<close>; the card \<open>c\<close> and the store \<open>ls\<close> are arbitrary.
\<close>

theorem recordComparison_prunes:
  "\<exists>h. recordComparison cfg now c ls (getStorageKey cfg) = Some (Parsed h)
     \<and> (\<forall>r \<in> set (records h). \<not> timestamp r < now - history_days cfg * 86400000)"
  by (auto simp add: stored_recordComparison records_record_in retentionMs_def)

text \<open>
  Claim C5, as amended. For every stored payload whose \<^verbatim>\<open>pending_forecasts\<close> field holds a
  truthy value (anything but \<^verbatim>\<open>null\<close>, \<^verbatim>\<open>false\<close>, \<^verbatim>\<open>0\<close> and the empty string), or whose
  record list is non-empty with a first record whose forecast is not a plain number,
  \<^verbatim>\<open>_loadHistory\<close> discards all prior records and returns the empty log
  \<^verbatim>\<open>{records: [], last_updated: 0}\<close>.
\<close>

theorem loadHistory_migration:
  assumes "ls (getStorageKey cfg) = Some (Parsed data)"
    and "(\<exists>p. pending_forecasts data = Some p \<and> truthy p)
       \<or> (\<exists>r rest. records data = r # rest \<and> \<not> typeof_number (forecast r))"
  shows "loadHistory cfg ls = \<lparr>pending_forecasts = None, records = [], last_updated = 0\<rparr>"
  using assms
  by (auto simp add: loadHistory_def empty_history_def split: option.splits list.splits)

lemma record_in_two_calls:
  assumes quiet: "\<not> list_ex (\<lambda>r. timestamp r > now1 - dedupWindowMs cfg) (records h0)"
    and near: "\<bar>now2 - now1\<bar> < dedupWindowMs cfg"
  shows "records (record_in cfg now2 fc look act (record_in cfg now1 (Some f) look1 (Some a) h0)) =
    filter (\<lambda>r. timestamp r > now2 - retentionMs cfg)
      (filter (\<lambda>r. timestamp r > now1 - retentionMs cfg)
         (records h0 @
            [\<lparr>timestamp = now1, forecast = JNum f, forecastLookahead = look1,
              actual = a, delta = f - a\<rparr>]))"
proof -
  let ?new = "\<lparr>timestamp = now1, forecast = JNum f, forecastLookahead = look1,
               actual = a, delta = f - a\<rparr>"
  let ?h1 = "record_in cfg now1 (Some f) look1 (Some a) h0"
  have r1: "records ?h1 = filter (\<lambda>r. timestamp r > now1 - retentionMs cfg) (records h0 @ [?new])"
    using quiet by (simp add: records_record_in)
  have "records (record_in cfg now2 fc look act ?h1) =
      filter (\<lambda>r. timestamp r > now2 - retentionMs cfg) (records ?h1)"
  proof (cases "0 < retentionMs cfg")
    case True
    then have "?new \<in> set (records ?h1)" by (simp add: r1)
    moreover have "timestamp ?new > now2 - dedupWindowMs cfg" using near by simp
    ultimately have "list_ex (\<lambda>r. timestamp r > now2 - dedupWindowMs cfg) (records ?h1)"
      unfolding list_ex_iff by blast
    then show ?thesis by (simp add: record_in_skip)
  next
    case False
    then show ?thesis
      by (auto simp add: records_record_in split: option.splits)
  qed
  then show ?thesis by (simp add: r1)
qed

text \<open>
  Claim C3, as amended. With \<open>dedupWindow = refreshIntervalMinutes * 60000 * 0.8\<close>, an append
  is skipped whenever a record of the loaded history has a timestamp newer than
  \<open>now - dedupWindow\<close>: the call then only prunes and stamps the log. Consequently, for a
  stored history in the current format (every forecast a number) that holds no record newer
  than \<open>now1 - dedupWindow\<close>, and with forecast and actual present at the first call, two
  append calls whose instants are less than \<open>dedupWindow\<close> apart append exactly one record,
  the one stamped \<open>now1\<close>: the second call appends nothing, and the stored records after it
  are the starting records followed by that record, less what the pruning of the two calls
  removes.
\<close>

theorem recordComparison_dedup:
  "(list_ex (\<lambda>r. timestamp r > now - dedupWindowMs cfg) (records (loadHistory cfg ls)) \<longrightarrow>
      recordComparison cfg now c ls (getStorageKey cfg) =
        Some (Parsed ((loadHistory cfg ls)
          \<lparr>records := filter (\<lambda>r. timestamp r > now - retentionMs cfg)
                        (records (loadHistory cfg ls)),
           last_updated := now\<rparr>)))
   \<and> (list_all (\<lambda>r. typeof_number (forecast r)) (records (loadHistory cfg ls))
      \<and> \<not> list_ex (\<lambda>r. timestamp r > now1 - dedupWindowMs cfg) (records (loadHistory cfg ls))
      \<and> currentForecast c1 = Some f \<and> currentActual c1 = Some a
      \<and> \<bar>now2 - now1\<bar> < dedupWindowMs cfg \<longrightarrow>
      records (loadHistory cfg (recordComparison cfg now2 c2 (recordComparison cfg now1 c1 ls))) =
        filter (\<lambda>r. timestamp r > now2 - retentionMs cfg)
          (filter (\<lambda>r. timestamp r > now1 - retentionMs cfg)
             (records (loadHistory cfg ls) @
                [\<lparr>timestamp = now1, forecast = JNum f,
                  forecastLookahead = currentForecastLookahead c1, actual = a, delta = f - a\<rparr>])))"
proof (intro conjI impI)
  assume "list_ex (\<lambda>r. timestamp r > now - dedupWindowMs cfg) (records (loadHistory cfg ls))"
  then show "recordComparison cfg now c ls (getStorageKey cfg) =
        Some (Parsed ((loadHistory cfg ls)
          \<lparr>records := filter (\<lambda>r. timestamp r > now - retentionMs cfg)
                        (records (loadHistory cfg ls)),
           last_updated := now\<rparr>))"
    by (simp add: stored_recordComparison record_in_skip)
next
  assume hyp: "list_all (\<lambda>r. typeof_number (forecast r)) (records (loadHistory cfg ls))
      \<and> \<not> list_ex (\<lambda>r. timestamp r > now1 - dedupWindowMs cfg) (records (loadHistory cfg ls))
      \<and> currentForecast c1 = Some f \<and> currentActual c1 = Some a
      \<and> \<bar>now2 - now1\<bar> < dedupWindowMs cfg"
  then have fmt: "list_all (\<lambda>r. typeof_number (forecast r)) (records (loadHistory cfg ls))"
    and quiet: "\<not> list_ex (\<lambda>r. timestamp r > now1 - dedupWindowMs cfg)
                   (records (loadHistory cfg ls))"
    and vals: "currentForecast c1 = Some f" "currentActual c1 = Some a"
    and near: "\<bar>now2 - now1\<bar> < dedupWindowMs cfg"
    by simp_all
  let ?ls1 = "recordComparison cfg now1 c1 ls"
  have h1: "loadHistory cfg ?ls1 =
      record_in cfg now1 (Some f) (currentForecastLookahead c1) (Some a) (loadHistory cfg ls)"
    using load_recordComparison [OF fmt, of now1 c1] vals by simp
  have fmt1: "list_all (\<lambda>r. typeof_number (forecast r)) (records (loadHistory cfg ?ls1))"
    unfolding h1 by (rule numeric_record_in [OF fmt])
  show "records (loadHistory cfg (recordComparison cfg now2 c2 ?ls1)) =
        filter (\<lambda>r. timestamp r > now2 - retentionMs cfg)
          (filter (\<lambda>r. timestamp r > now1 - retentionMs cfg)
             (records (loadHistory cfg ls) @
                [\<lparr>timestamp = now1, forecast = JNum f,
                  forecastLookahead = currentForecastLookahead c1, actual = a, delta = f - a\<rparr>]))"
    unfolding load_recordComparison [OF fmt1] h1
    by (rule record_in_two_calls [OF quiet near])
qed

lemma window_celsius: "dedupWindowMs cfg_celsius = 2880000" "retentionMs cfg_celsius = 604800000"
  by (simp_all add: dedupWindowMs_def retentionMs_def cfg_celsius_def)

lemma load_store_of_all: "loadHistory cfg_celsius (store_of (rec_at t d # rs)) =
    \<lparr>pending_forecasts = None, records = rec_at t d # rs, last_updated = 0\<rparr>"
  by (simp add: loadHistory_def key_celsius store_of_def rec_at_def)

lemma card_with_fields:
  "currentForecast (card_with f a) = Some f" "currentActual (card_with f a) = Some a"
  "currentForecastLookahead (card_with f a) = None"
  by (simp_all add: card_with_def card_init_def)

text \<open>
  A refresh interval of 60 minutes gives a window of 2880000 ms. A call 1000 ms after a
  stored record appends nothing; two calls 1000 ms apart on a history whose only record
  is old append the record of the first call only.
\<close>

theorem recordComparison_dedup_witness:
  "recordComparison cfg_celsius 1000000 (card_with 20 19) (store_of [rec_at 999000 1])
      (getStorageKey cfg_celsius) =
     Some (Parsed \<lparr>pending_forecasts = None, records = [rec_at 999000 1], last_updated = 1000000\<rparr>)
   \<and> records (loadHistory cfg_celsius
        (recordComparison cfg_celsius 10001000 (card_with 25 19)
          (recordComparison cfg_celsius 10000000 (card_with 20 19) (store_of [rec_at 1000 1])))) =
     [rec_at 1000 1,
      \<lparr>timestamp = 10000000, forecast = JNum 20, forecastLookahead = None, actual = 19, delta = 1\<rparr>]"
proof -
  have skip: "recordComparison cfg_celsius 1000000 (card_with 20 19) (store_of [rec_at 999000 1])
      (getStorageKey cfg_celsius) =
     Some (Parsed \<lparr>pending_forecasts = None, records = [rec_at 999000 1], last_updated = 1000000\<rparr>)"
    using recordComparison_dedup [of 1000000 cfg_celsius "store_of [rec_at 999000 1]"
        "card_with 20 19" 0 card_init 0 0 0 card_init]
    by (simp add: load_store_of_all window_celsius) (simp add: rec_at_def)
  have twice: "records (loadHistory cfg_celsius
        (recordComparison cfg_celsius 10001000 (card_with 25 19)
          (recordComparison cfg_celsius 10000000 (card_with 20 19) (store_of [rec_at 1000 1])))) =
     [rec_at 1000 1,
      \<lparr>timestamp = 10000000, forecast = JNum 20, forecastLookahead = None, actual = 19, delta = 1\<rparr>]"
    using recordComparison_dedup [of 0 cfg_celsius "store_of [rec_at 1000 1]" card_init
        10000000 "card_with 20 19" 20 19 10001000 "card_with 25 19"]
    by (simp add: load_store_of_all window_celsius card_with_fields) (simp add: rec_at_def)
  from skip twice show ?thesis by simp
qed

text \<open>
  The claim as stated fails. Two calls 1000 ms apart on a history that already holds a
  record 1000 ms old add no record at all. And the second of two calls 200 ms apart
  changes the record set when a record passes the retention limit between them: the record
  stamped 500 is stored after the first call and gone after the second.
\<close>

theorem recordComparison_dedup_counterexample:
  "\<bar>1001000 - 1000000\<bar> < dedupWindowMs cfg_celsius
   \<and> records (loadHistory cfg_celsius (store_of [rec_at 999000 1])) = [rec_at 999000 1]
   \<and> records (loadHistory cfg_celsius
        (recordComparison cfg_celsius 1001000 (card_with 20 19)
          (recordComparison cfg_celsius 1000000 (card_with 20 19) (store_of [rec_at 999000 1])))) =
       [rec_at 999000 1]
   \<and> \<bar>604800600 - 604800400\<bar> < dedupWindowMs cfg_celsius
   \<and> records (loadHistory cfg_celsius
        (recordComparison cfg_celsius 604800400 (card_with 20 19) (store_of [rec_at 500 1]))) =
       [rec_at 500 1,
        \<lparr>timestamp = 604800400, forecast = JNum 20, forecastLookahead = None, actual = 19, delta = 1\<rparr>]
   \<and> records (loadHistory cfg_celsius
        (recordComparison cfg_celsius 604800600 (card_with 20 19)
          (recordComparison cfg_celsius 604800400 (card_with 20 19) (store_of [rec_at 500 1])))) =
       [\<lparr>timestamp = 604800400, forecast = JNum 20, forecastLookahead = None, actual = 19, delta = 1\<rparr>]"
proof -
  have fmt: "list_all (\<lambda>r. typeof_number (forecast r))
      (records (loadHistory cfg_celsius (store_of [rec_at t d])))" for t d
    by (simp add: load_store_of_all) (simp add: rec_at_def)
  have one: "loadHistory cfg_celsius (recordComparison cfg_celsius now c (store_of [rec_at t d])) =
      record_in cfg_celsius now (currentForecast c) (currentForecastLookahead c) (currentActual c)
        (loadHistory cfg_celsius (store_of [rec_at t d]))" for now c t d
    by (rule load_recordComparison [OF fmt])
  have two: "loadHistory cfg_celsius
        (recordComparison cfg_celsius now' c' (recordComparison cfg_celsius now c (store_of [rec_at t d]))) =
      record_in cfg_celsius now' (currentForecast c') (currentForecastLookahead c') (currentActual c')
        (record_in cfg_celsius now (currentForecast c) (currentForecastLookahead c) (currentActual c)
          (loadHistory cfg_celsius (store_of [rec_at t d])))" for now now' c c' t d
    unfolding one [symmetric]
    by (rule load_recordComparison) (simp add: one numeric_record_in fmt)
  show ?thesis
    unfolding one two
    by (simp add: records_record_in load_store_of_all window_celsius card_with_fields)
       (simp add: rec_at_def)
qed

text \<open>
  At \<open>now = 700000000\<close> with seven days of retention the record stamped 1000 is dropped
  and the recent one kept, although the card holds no forecast and nothing is appended.
\<close>

theorem recordComparison_prunes_witness:
  "\<exists>h. recordComparison cfg_celsius 700000000 card_init
          (store_of [rec_at 1000 1, rec_at 699000000 2]) (getStorageKey cfg_celsius)
        = Some (Parsed h)
     \<and> (\<forall>r \<in> set (records h). \<not> timestamp r < 700000000 - history_days cfg_celsius * 86400000)
     \<and> records h = [rec_at 699000000 2]"
  using recordComparison_prunes [of cfg_celsius 700000000 card_init
      "store_of [rec_at 1000 1, rec_at 699000000 2]"]
  by (simp add: stored_recordComparison records_record_in load_store_of_all window_celsius
      card_init_def)
     (simp add: rec_at_def cfg_celsius_def)

text \<open>
  A payload with an empty \<^verbatim>\<open>pending_forecasts\<close> array, and one whose first record holds an
  object as forecast: both load as the empty log.
\<close>

theorem loadHistory_migration_witness:
  "loadHistory cfg_celsius
      [''forecast-temp-accuracy-sensor_t'' \<mapsto>
         Parsed \<lparr>pending_forecasts = Some (JArr []), records = [rec_at 1 1], last_updated = 5\<rparr>]
     = \<lparr>pending_forecasts = None, records = [], last_updated = 0\<rparr>
   \<and> loadHistory cfg_celsius
      (store_of [\<lparr>timestamp = 1, forecast = JObj [(''temp'', JNum 3)], forecastLookahead = None,
                   actual = 2, delta = 1\<rparr>])
     = \<lparr>pending_forecasts = None, records = [], last_updated = 0\<rparr>"
proof -
  have pending: "loadHistory cfg_celsius
      [''forecast-temp-accuracy-sensor_t'' \<mapsto>
         Parsed \<lparr>pending_forecasts = Some (JArr []), records = [rec_at 1 1], last_updated = 5\<rparr>]
     = \<lparr>pending_forecasts = None, records = [], last_updated = 0\<rparr>"
    using loadHistory_migration [of
        "[''forecast-temp-accuracy-sensor_t'' \<mapsto>
           Parsed \<lparr>pending_forecasts = Some (JArr []), records = [rec_at 1 1], last_updated = 5\<rparr>]"
        cfg_celsius
        "\<lparr>pending_forecasts = Some (JArr []), records = [rec_at 1 1], last_updated = 5\<rparr>"]
    by (simp add: key_celsius)
  have first: "loadHistory cfg_celsius
      (store_of [\<lparr>timestamp = 1, forecast = JObj [(''temp'', JNum 3)], forecastLookahead = None,
                   actual = 2, delta = 1\<rparr>])
     = \<lparr>pending_forecasts = None, records = [], last_updated = 0\<rparr>"
    using loadHistory_migration [of
        "store_of [\<lparr>timestamp = 1, forecast = JObj [(''temp'', JNum 3)], forecastLookahead = None,
                   actual = 2, delta = 1\<rparr>]"
        cfg_celsius
        "\<lparr>pending_forecasts = None,
          records = [\<lparr>timestamp = 1, forecast = JObj [(''temp'', JNum 3)], forecastLookahead = None,
                       actual = 2, delta = 1\<rparr>],
          last_updated = 0\<rparr>"]
    by (simp add: key_celsius store_of_def)
  from pending first show ?thesis by simp
qed

text \<open>
  The claim as stated fails: a payload that contains the field \<^verbatim>\<open>pending_forecasts\<close> with the
  value \<^verbatim>\<open>null\<close>, and a record in the current format, is returned as it is, record included.
\<close>

theorem loadHistory_migration_counterexample:
  "pending_forecasts
      \<lparr>pending_forecasts = Some JNull, records = [rec_at 1 1], last_updated = 5\<rparr> \<noteq> None
   \<and> loadHistory cfg_celsius
      [''forecast-temp-accuracy-sensor_t'' \<mapsto>
         Parsed \<lparr>pending_forecasts = Some JNull, records = [rec_at 1 1], last_updated = 5\<rparr>]
     \<noteq> \<lparr>pending_forecasts = None, records = [], last_updated = 0\<rparr>
   \<and> records (loadHistory cfg_celsius
      [''forecast-temp-accuracy-sensor_t'' \<mapsto>
         Parsed \<lparr>pending_forecasts = Some JNull, records = [rec_at 1 1], last_updated = 5\<rparr>])
     = [rec_at 1 1]"
  by (simp add: loadHistory_def key_celsius rec_at_def)

section \<open>Station-based adapter: the entry chosen as current\<close>

text \<open>
  When the first entry of the hourly array carries a time, the scan of lines 1983-1994
  ends on an entry with a time whose distance to the target is minimal among the first
  entry and all entries with a non-zero time.
\<close>

lemma closest_loop_minimal:
  assumes "time chosen = Some t0" and "d = \<bar>t0 - target\<bar>"
  shows "\<exists>e t. closest_loop target hs (chosen, Some d) = (e, Some \<bar>t - target\<bar>)
      \<and> time e = Some t \<and> e \<in> insert chosen (set hs) \<and> \<bar>t - target\<bar> \<le> d
      \<and> (\<forall>x \<in> set hs. \<forall>u. time x = Some u \<and> u \<noteq> 0 \<longrightarrow> \<bar>t - target\<bar> \<le> \<bar>u - target\<bar>)"
  using assms
proof (induction hs arbitrary: chosen t0 d)
  case Nil
  then show ?case by simp
next
  case (Cons x hs)
  show ?case
  proof (cases "time x")
    case None
    with Cons.IH [OF Cons.prems] show ?thesis by auto
  next
    case (Some u)
    show ?thesis
    proof (cases "u \<noteq> 0 \<and> \<bar>u - target\<bar> < d")
      case True
      from Cons.IH [of x u "\<bar>u - target\<bar>"] Some
      obtain e t where step: "closest_loop target hs (x, Some \<bar>u - target\<bar>) = (e, Some \<bar>t - target\<bar>)"
        "time e = Some t" "e \<in> insert x (set hs)" "\<bar>t - target\<bar> \<le> \<bar>u - target\<bar>"
        "\<forall>y \<in> set hs. \<forall>w. time y = Some w \<and> w \<noteq> 0 \<longrightarrow> \<bar>t - target\<bar> \<le> \<bar>w - target\<bar>"
        by blast
      with True Some show ?thesis by (intro exI [of _ e] exI [of _ t]) auto
    next
      case False
      from Cons.IH [OF Cons.prems]
      obtain e t where step: "closest_loop target hs (chosen, Some d) = (e, Some \<bar>t - target\<bar>)"
        "time e = Some t" "e \<in> insert chosen (set hs)" "\<bar>t - target\<bar> \<le> d"
        "\<forall>y \<in> set hs. \<forall>w. time y = Some w \<and> w \<noteq> 0 \<longrightarrow> \<bar>t - target\<bar> \<le> \<bar>w - target\<bar>"
        by blast
      with False Some show ?thesis by (intro exI [of _ e] exI [of _ t]) auto
    qed
  qed
qed

lemma closest_entry_minimal:
  assumes "time first = Some t0"
  shows "\<exists>t. time (closest_entry target first rest) = Some t
      \<and> closest_entry target first rest \<in> set (first # rest)
      \<and> (\<forall>x \<in> set (first # rest). \<forall>u. time x = Some u \<and> (u \<noteq> 0 \<or> x = first) \<longrightarrow>
            \<bar>t - target\<bar> \<le> \<bar>u - target\<bar>)"
proof -
  from closest_loop_minimal [OF assms refl, of target "first # rest"]
  obtain e t where step:
    "closest_loop target (first # rest) (first, Some \<bar>t0 - target\<bar>) = (e, Some \<bar>t - target\<bar>)"
    "time e = Some t" "e \<in> insert first (set (first # rest))" "\<bar>t - target\<bar> \<le> \<bar>t0 - target\<bar>"
    "\<forall>x \<in> set (first # rest). \<forall>u. time x = Some u \<and> u \<noteq> 0 \<longrightarrow> \<bar>t - target\<bar> \<le> \<bar>u - target\<bar>"
    by blast
  have "closest_entry target first rest = e"
    using step(1) assms by (simp add: closest_entry_def)
  with step assms show ?thesis by auto
qed

text \<open>
  When the first entry carries no time, \<^verbatim>\<open>closestDiff\<close> starts as \<^verbatim>\<open>NaN\<close>, no later entry
  compares below it, and the scan ends on the first entry.
\<close>

lemma closest_loop_nan: "closest_loop target hs (chosen, None) = (chosen, None)"
  by (induction hs) (simp_all split: option.splits)

lemma closest_entry_no_time: "time first = None \<Longrightarrow> closest_entry target first rest = first"
  by (simp add: closest_entry_def closest_loop_nan)

lemma normalize_same: "normalizeTemperature cfg h v (Some (getDisplayUnit cfg h)) = v"
  by (simp add: normalizeTemperature_def)

text \<open>
  Claim C7 says that for every non-empty hourly array of the station-based adapter the
  entry chosen as current is one whose timestamp minimizes the absolute difference to the
  current time over all entries carrying a timestamp. The code does not do so on an array
  whose first entry has no \<^verbatim>\<open>time\<close>: at second 1000 it chooses that first entry, and the card
  shows its 50 degrees, although the second entry is stamped 1000 exactly. The selection of
  release 1.2.0 takes the first entry within an hour: at second 10000 the entry stamped
  7000, although the one stamped 10600 is nearer.
\<close>

theorem fetchFromTempest_first_entry_without_time:
  "closest_entry 1000 \<lparr>time = None, air_temperature = Some 50\<rparr>
      [\<lparr>time = Some 1000, air_temperature = Some 60\<rparr>]
     = \<lparr>time = None, air_temperature = Some 50\<rparr>
   \<and> map_sum id currentForecast
       (fetchFromTempest cfg_dual (hass_one None None) 1000000
          (Body \<lparr>status = None,
                 forecast_hourly = Some [\<lparr>time = None, air_temperature = Some 50\<rparr>,
                                         \<lparr>time = Some 1000, air_temperature = Some 60\<rparr>]\<rparr>)
          card_init)
     = Inr (Some 50)
   \<and> currentHourForecast_v120 10000
        [\<lparr>time = Some 7000, air_temperature = Some 50\<rparr>,
         \<lparr>time = Some 10600, air_temperature = Some 60\<rparr>]
        \<lparr>time = Some 7000, air_temperature = Some 50\<rparr>
     = \<lparr>time = Some 7000, air_temperature = Some 50\<rparr>"
proof -
  have "normalizeTemperature cfg_dual (hass_one None None) 50 (Some ''F'') = 50"
    using normalize_same [of cfg_dual "hass_one None None" 50] by (simp add: display_dual)
  then show ?thesis
    by (simp add: fetchFromTempest_def closest_entry_no_time Let_def)
qed

section \<open>Comparison orchestrator\<close>

lemma fetchFromTempest_failure_card:
  "fetchFromTempest cfg h now resp c = Inl e \<Longrightarrow> fetchFromTempest cfg h now resp c' = Inl e"
  by (auto simp add: fetchFromTempest_def Let_def
      split: response.splits option.splits list.splits if_splits)

lemma fetchFromOpenMeteo_failure_card:
  "fetchFromOpenMeteo cfg h resp c = Inl e \<Longrightarrow> fetchFromOpenMeteo cfg h resp c' = Inl e"
  by (auto simp add: fetchFromOpenMeteo_def split: response.splits option.splits)



text \<open>
  Claim C9. For every refresh cycle in which the actual sensor reading was obtained and the
  primary forecast fetch then fails, the reading is not discarded: after the failed cycle
  the current-actual state holds the value read from the sensor at the start of the cycle
  (in the display unit), the error of the fetch is reported and the store is untouched. The
  primary source is Tempest when key and station are configured and Open-Meteo otherwise;
  whether its fetch fails does not depend on the card, so the hypothesis states the
  failure on the card \<open>c\<close> the cycle starts from.
\<close>

theorem fetchData_keeps_actual:
  assumes sensor: "states h (temperature_sensor cfg) = Some s" "state s = Some v"
    and failed:
      "(if truthy_str (tempest_api_key cfg) \<and> truthy_str (tempest_station_id cfg)
        then fetchFromTempest cfg h now tempest c
        else fetchFromOpenMeteo cfg h openmeteo c) = Inl e"
  shows "currentActual (fst (fetchData cfg (Some h) now tempest openmeteo (c, ls)))
           = Some (normalizeTemperature cfg h v (unit_of_measurement s))
       \<and> error (fst (fetchData cfg (Some h) now tempest openmeteo (c, ls))) = Some e
       \<and> snd (fetchData cfg (Some h) now tempest openmeteo (c, ls)) = ls"
proof -
  let ?c0 = "c\<lparr>loading := True, error := None, lastFetch := now\<rparr>"
  let ?c1 = "?c0\<lparr>currentActual := Some (normalizeTemperature cfg h v (unit_of_measurement s))\<rparr>"
  have actual: "updateActualTemperature cfg h ?c0 = Inr ?c1"
    using sensor by (simp add: updateActualTemperature_def)
  have block: "fetchData_try cfg h now tempest openmeteo ?c0 ls = (Some e, ?c1, ls)"
  proof (cases "truthy_str (tempest_api_key cfg) \<and> truthy_str (tempest_station_id cfg)")
    case True
    with failed have "fetchFromTempest cfg h now tempest ?c1 = Inl e"
      by (auto intro: fetchFromTempest_failure_card)
    with True show ?thesis
      by (simp add: fetchData_try_def actual isComparisonMode_def Let_def)
  next
    case False
    with failed have "fetchFromOpenMeteo cfg h openmeteo ?c1 = Inl e"
      by (auto intro: fetchFromOpenMeteo_failure_card)
    with False show ?thesis
      by (auto simp add: fetchData_try_def actual isComparisonMode_def Let_def)
  qed
  show ?thesis
    by (simp add: fetchData_def block)
qed


lemma normalize_dual_F: "normalizeTemperature cfg_dual h v (Some ''F'') = v"
  using normalize_same [of cfg_dual h v] by (simp add: display_dual)



text \<open>
  A Fahrenheit card reads 71 from its sensor, then Tempest answers with status 500.
\<close>

theorem fetchData_keeps_actual_witness:
  "currentActual (fst (fetchData cfg_dual (Some (hass_one (Some 71) (Some ''F''))) 1000000
      (HttpError 500) Rejected (card_init, Map.empty))) = Some 71
   \<and> error (fst (fetchData cfg_dual (Some (hass_one (Some 71) (Some ''F''))) 1000000
      (HttpError 500) Rejected (card_init, Map.empty))) = Some (TempestApiError 500)
   \<and> snd (fetchData cfg_dual (Some (hass_one (Some 71) (Some ''F''))) 1000000
      (HttpError 500) Rejected (card_init, Map.empty)) = Map.empty"
proof -
  have sensor: "states (hass_one (Some 71) (Some ''F'')) (temperature_sensor cfg_dual)
      = Some \<lparr>state = Some 71, unit_of_measurement = Some ''F''\<rparr>"
    by (simp add: hass_one_def cfg_dual_def)
  have reading: "state \<lparr>state = Some 71, unit_of_measurement = Some ''F''\<rparr> = Some (71 :: real)"
    by simp
  have failed: "(if truthy_str (tempest_api_key cfg_dual) \<and> truthy_str (tempest_station_id cfg_dual)
        then fetchFromTempest cfg_dual (hass_one (Some 71) (Some ''F'')) 1000000 (HttpError 500) card_init
        else fetchFromOpenMeteo cfg_dual (hass_one (Some 71) (Some ''F'')) Rejected card_init)
      = Inl (TempestApiError 500)"
    by (simp add: cfg_dual_def fetchFromTempest_def)
  show ?thesis
    using fetchData_keeps_actual [OF sensor reading failed, of Map.empty]
    by (simp add: normalize_dual_F)
qed


end
